theory Spec2Isabelle
  imports Main
begin

section \<open>Strings and characters\<close>

text \<open>
  The constants module \<^verbatim>\<open>src/config.ts\<close> holds four string literals and one derived
  string, \<^verbatim>\<open>new URL(import.meta.env.SITE).origin\<close>. The literals are ASCII. A string is
  modelled as the list of the bytes of its UTF-8 encoding: the URL parser reads code
  points, and every code point it treats specially is ASCII, so it reads the bytes of a
  code point beyond ASCII as it reads the code point (none of them is special, and each
  is percent-encoded byte by byte).
\<close>

definition c0_control_or_space :: "char \<Rightarrow> bool" where
  "c0_control_or_space c = (of_char c \<le> (0x20::nat))"

definition ascii_tab_or_newline :: "char \<Rightarrow> bool" where
  "ascii_tab_or_newline c = (of_char c = (0x09::nat) \<or> of_char c = (0x0A::nat) \<or> of_char c = (0x0D::nat))"

definition ascii_digit :: "char \<Rightarrow> bool" where
  "ascii_digit c = (0x30 \<le> (of_char c :: nat) \<and> (of_char c :: nat) \<le> 0x39)"

definition ascii_upper_alpha :: "char \<Rightarrow> bool" where
  "ascii_upper_alpha c = (0x41 \<le> (of_char c :: nat) \<and> (of_char c :: nat) \<le> 0x5A)"

definition ascii_lower_alpha :: "char \<Rightarrow> bool" where
  "ascii_lower_alpha c = (0x61 \<le> (of_char c :: nat) \<and> (of_char c :: nat) \<le> 0x7A)"

definition ascii_alpha :: "char \<Rightarrow> bool" where
  "ascii_alpha c = (ascii_upper_alpha c \<or> ascii_lower_alpha c)"

definition ascii_alphanumeric :: "char \<Rightarrow> bool" where
  "ascii_alphanumeric c = (ascii_digit c \<or> ascii_alpha c)"

definition ascii_lowercase :: "char \<Rightarrow> char" where
  "ascii_lowercase c =
     (if ascii_upper_alpha c then ''abcdefghijklmnopqrstuvwxyz'' ! (of_char c - 0x41) else c)"

text \<open>Decimal numbers: the port is read from a run of digits and written without leading zeros.\<close>

definition digit_value :: "char \<Rightarrow> nat" where
  "digit_value c = of_char c - 0x30"

definition decimal_value :: "string \<Rightarrow> nat" where
  "decimal_value ds = foldl (\<lambda>n c. 10 * n + digit_value c) 0 ds"

definition digit_char :: "nat \<Rightarrow> char" where
  "digit_char d = ''0123456789'' ! d"

fun decimal_string :: "nat \<Rightarrow> string" where
  "decimal_string n = (if n < 10 then [digit_char n] else decimal_string (n div 10) @ [digit_char (n mod 10)])"

declare decimal_string.simps [simp del]

definition hex_digit :: "nat \<Rightarrow> char" where
  "hex_digit d = ''0123456789ABCDEF'' ! d"

section \<open>The platform: \<^verbatim>\<open>new URL\<close> and \<^verbatim>\<open>origin\<close>\<close>

text \<open>
  \<^verbatim>\<open>URL\<close> is the class of the JavaScript platform, specified by the WHATWG URL
  Standard. The model follows the standard's basic URL parser for the call the module
  makes: one argument, so no base URL, no state override and UTF-8 as the encoding. The
  parser is a state machine over the input; each state below is one function, named as
  in the standard, that takes what remains of the input.

  The host parser of the standard (domains by Unicode IDNA processing, IPv4 and IPv6
  addresses, opaque hosts) is a parameter of the model: a function from the flag
  \<open>isOpaque\<close> and the host's text to the serialised host, or \<open>None\<close> when the host
  parser returns failure.
\<close>

datatype js_error = TypeError

type_synonym host_parser = "bool \<Rightarrow> string \<Rightarrow> string option"

text \<open>
  A URL record keeps the scheme, the host (serialised), the port, and the path as far as
  \<^verbatim>\<open>origin\<close> reads it: an opaque path as the string it is, a list of segments only as
  such. The states that read a list path, the query and the fragment never return
  failure and \<^verbatim>\<open>origin\<close> reads nothing of what they store, so they are not modelled;
  nor are the username and the password.
\<close>

datatype url_path = OpaquePath string | ListPath

record url =
  scheme :: string
  host :: "string option"
  port :: "nat option"
  path :: url_path

definition is_special :: "string \<Rightarrow> bool" where
  "is_special s = (s = ''ftp'' \<or> s = ''file'' \<or> s = ''http'' \<or> s = ''https'' \<or> s = ''ws'' \<or> s = ''wss'')"

definition default_port :: "string \<Rightarrow> nat option" where
  "default_port s =
     (if s = ''ftp'' then Some 21
      else if s = ''http'' then Some 80
      else if s = ''https'' then Some 443
      else if s = ''ws'' then Some 80
      else if s = ''wss'' then Some 443
      else None)"

text \<open>Before the state machine starts: leading and trailing C0 controls and spaces are
  removed, then every tab and newline.\<close>

definition strip_c0_control_or_space :: "string \<Rightarrow> string" where
  "strip_c0_control_or_space s =
     rev (dropWhile c0_control_or_space (rev (dropWhile c0_control_or_space s)))"

definition remove_tab_or_newline :: "string \<Rightarrow> string" where
  "remove_tab_or_newline s = filter (\<lambda>c. \<not> ascii_tab_or_newline c) s"

text \<open>
  Scheme start state and scheme state. Without a base URL the no scheme state returns
  failure, so every way into it is \<open>None\<close> here. On success: the scheme, lower-cased, and
  the input after the colon.
\<close>

fun scheme_state :: "string \<Rightarrow> string \<Rightarrow> (string \<times> string) option" where
  "scheme_state buffer [] = None"
| "scheme_state buffer (c # cs) =
     (if ascii_alphanumeric c \<or> c = CHR ''+'' \<or> c = CHR ''-'' \<or> c = CHR ''.''
      then scheme_state (buffer @ [ascii_lowercase c]) cs
      else if c = CHR '':'' then Some (buffer, cs)
      else None)"

fun scheme_start_state :: "string \<Rightarrow> (string \<times> string) option" where
  "scheme_start_state [] = None"
| "scheme_start_state (c # cs) =
     (if ascii_alpha c then scheme_state [ascii_lowercase c] cs else None)"

text \<open>The code points that end the authority, the host and the port: \<^verbatim>\<open>/\<close>, \<^verbatim>\<open>?\<close>,
  \<^verbatim>\<open>#\<close>, and the backslash in a special URL (the end of the input is the \<open>[]\<close> case of
  each state).\<close>

definition ends_authority :: "bool \<Rightarrow> char \<Rightarrow> bool" where
  "ends_authority special c =
     (c = CHR ''/'' \<or> c = CHR ''?'' \<or> c = CHR ''#'' \<or> (special \<and> c = CHR 0x5C))"

text \<open>
  Special authority slashes state and special authority ignore slashes state: two
  slashes are skipped if they are there, then every further slash or backslash.
\<close>

definition special_authority_ignore_slashes_state :: "string \<Rightarrow> string" where
  "special_authority_ignore_slashes_state input =
     dropWhile (\<lambda>c. c = CHR ''/'' \<or> c = CHR 0x5C) input"

fun special_authority_slashes_state :: "string \<Rightarrow> string" where
  "special_authority_slashes_state (c # d # cs) =
     (if c = CHR ''/'' \<and> d = CHR ''/'' then special_authority_ignore_slashes_state cs
      else special_authority_ignore_slashes_state (c # d # cs))"
| "special_authority_slashes_state input = special_authority_ignore_slashes_state input"

text \<open>
  Authority state. The buffer collects the input up to an \<^verbatim>\<open>@\<close> (credentials, which
  are dropped here) or up to the end of the authority; there the pointer goes back to
  the start of the buffer, where the host state starts. The result is the input of the
  host state; failure when an \<^verbatim>\<open>@\<close> is followed by no host.
\<close>

fun authority_state :: "bool \<Rightarrow> bool \<Rightarrow> string \<Rightarrow> string \<Rightarrow> string option" where
  "authority_state special at_sign_seen buffer [] =
     (if at_sign_seen \<and> buffer = [] then None else Some buffer)"
| "authority_state special at_sign_seen buffer (c # cs) =
     (if c = CHR ''@'' then authority_state special True [] cs
      else if ends_authority special c
      then (if at_sign_seen \<and> buffer = [] then None else Some (buffer @ c # cs))
      else authority_state special at_sign_seen (buffer @ [c]) cs)"

text \<open>Port state: digits up to the end of the authority; a port above \<open>2\<^sup>1\<^sup>6 - 1\<close> is a
  failure, the scheme's default port is stored as no port.\<close>

definition port_end :: "string \<Rightarrow> string \<Rightarrow> string \<Rightarrow> (nat option \<times> string) option" where
  "port_end sch buffer rest =
     (if buffer = [] then Some (None, rest)
      else let p = decimal_value buffer in
        if p > 65535 then None
        else Some (if default_port sch = Some p then None else Some p, rest))"

fun port_state :: "string \<Rightarrow> string \<Rightarrow> string \<Rightarrow> (nat option \<times> string) option" where
  "port_state sch buffer [] = port_end sch buffer []"
| "port_state sch buffer (c # cs) =
     (if ascii_digit c then port_state sch (buffer @ [c]) cs
      else if ends_authority (is_special sch) c then port_end sch buffer (c # cs)
      else None)"

text \<open>Host state: the host's text runs to a colon outside square brackets (a port
  follows) or to the end of the authority. On success: host, port and the input left for
  the path start state.\<close>

definition host_end :: "host_parser \<Rightarrow> string \<Rightarrow> string \<Rightarrow> string \<Rightarrow> (string \<times> nat option \<times> string) option" where
  "host_end hp sch buffer rest =
     (if is_special sch \<and> buffer = [] then None
      else case hp (\<not> is_special sch) buffer of
        None \<Rightarrow> None
      | Some h \<Rightarrow> Some (h, None, rest))"

fun host_state :: "host_parser \<Rightarrow> string \<Rightarrow> bool \<Rightarrow> string \<Rightarrow> string \<Rightarrow> (string \<times> nat option \<times> string) option" where
  "host_state hp sch inside_brackets buffer [] = host_end hp sch buffer []"
| "host_state hp sch inside_brackets buffer (c # cs) =
     (if c = CHR '':'' \<and> \<not> inside_brackets
      then (if buffer = [] then None
            else case hp (\<not> is_special sch) buffer of
              None \<Rightarrow> None
            | Some h \<Rightarrow>
                (case port_state sch [] cs of
                  None \<Rightarrow> None
                | Some (p, rest) \<Rightarrow> Some (h, p, rest)))
      else if ends_authority (is_special sch) c then host_end hp sch buffer (c # cs)
      else host_state hp sch
             (if c = CHR ''['' then True else if c = CHR '']'' then False else inside_brackets)
             (buffer @ [c]) cs)"

text \<open>From the authority state to the URL record.\<close>

definition authority :: "host_parser \<Rightarrow> string \<Rightarrow> string \<Rightarrow> url option" where
  "authority hp sch input =
     (case authority_state (is_special sch) False [] input of
        None \<Rightarrow> None
      | Some input' \<Rightarrow>
          (case host_state hp sch False [] input' of
            None \<Rightarrow> None
          | Some (h, p, rest) \<Rightarrow>
              Some \<lparr>scheme = sch, host = Some h, port = p, path = ListPath\<rparr>))"

text \<open>
  File state, file slash state and file host state. A file URL has the empty host unless
  two slashes and a host follow the scheme; a Windows drive letter in the host's place is
  part of the path, and the host \<^verbatim>\<open>localhost\<close> is stored as the empty host.
\<close>

definition windows_drive_letter :: "string \<Rightarrow> bool" where
  "windows_drive_letter s =
     (case s of [a, b] \<Rightarrow> ascii_alpha a \<and> (b = CHR '':'' \<or> b = CHR ''|'') | _ \<Rightarrow> False)"

definition file_url :: "string \<Rightarrow> url" where
  "file_url h = \<lparr>scheme = ''file'', host = Some h, port = None, path = ListPath\<rparr>"

definition file_host_end :: "host_parser \<Rightarrow> string \<Rightarrow> url option" where
  "file_host_end hp buffer =
     (if windows_drive_letter buffer then Some (file_url [])
      else if buffer = [] then Some (file_url [])
      else case hp False buffer of
        None \<Rightarrow> None
      | Some h \<Rightarrow> Some (file_url (if h = ''localhost'' then [] else h)))"

fun file_host_state :: "host_parser \<Rightarrow> string \<Rightarrow> string \<Rightarrow> url option" where
  "file_host_state hp buffer [] = file_host_end hp buffer"
| "file_host_state hp buffer (c # cs) =
     (if ends_authority True c then file_host_end hp buffer
      else file_host_state hp (buffer @ [c]) cs)"

fun file_slash_state :: "host_parser \<Rightarrow> string \<Rightarrow> url option" where
  "file_slash_state hp [] = Some (file_url [])"
| "file_slash_state hp (c # cs) =
     (if c = CHR ''/'' \<or> c = CHR 0x5C then file_host_state hp [] cs else Some (file_url []))"

fun file_state :: "host_parser \<Rightarrow> string \<Rightarrow> url option" where
  "file_state hp [] = Some (file_url [])"
| "file_state hp (c # cs) =
     (if c = CHR ''/'' \<or> c = CHR 0x5C then file_slash_state hp cs else Some (file_url []))"

text \<open>Path or authority state, for a scheme that is not special and is followed by a
  slash: a second slash starts an authority, anything else a path with no host.\<close>

fun path_or_authority_state :: "host_parser \<Rightarrow> string \<Rightarrow> string \<Rightarrow> url option" where
  "path_or_authority_state hp sch [] =
     Some \<lparr>scheme = sch, host = None, port = None, path = ListPath\<rparr>"
| "path_or_authority_state hp sch (c # cs) =
     (if c = CHR ''/'' then authority hp sch cs
      else Some \<lparr>scheme = sch, host = None, port = None, path = ListPath\<rparr>)"

text \<open>Opaque path state: the path runs to the query or the fragment; C0 controls and
  bytes above \<^verbatim>\<open>~\<close> are percent-encoded. A space stays a space, as in Node.js 22 (the
  current URL Standard percent-encodes a space that stands right before the query or the
  fragment).\<close>

definition percent_encode_byte :: "char \<Rightarrow> string" where
  "percent_encode_byte c =
     [CHR ''%'', hex_digit ((of_char c :: nat) div 16), hex_digit ((of_char c :: nat) mod 16)]"

definition c0_control_percent_encode :: "char \<Rightarrow> string" where
  "c0_control_percent_encode c =
     (if (of_char c :: nat) \<le> 0x1F \<or> (of_char c :: nat) > 0x7E then percent_encode_byte c else [c])"

fun opaque_path_state :: "string \<Rightarrow> string \<Rightarrow> string" where
  "opaque_path_state p [] = p"
| "opaque_path_state p (c # cs) =
     (if c = CHR ''?'' \<or> c = CHR ''#'' then p
      else opaque_path_state (p @ c0_control_percent_encode c) cs)"

text \<open>The basic URL parser, from the input string to the URL record or failure.\<close>

definition basic_URL_parser :: "host_parser \<Rightarrow> string \<Rightarrow> url option" where
  "basic_URL_parser hp input =
     (case scheme_start_state (remove_tab_or_newline (strip_c0_control_or_space input)) of
        None \<Rightarrow> None
      | Some (sch, rest) \<Rightarrow>
          if sch = ''file'' then file_state hp rest
          else if is_special sch then authority hp sch (special_authority_slashes_state rest)
          else (case rest of
                  c # cs \<Rightarrow>
                    if c = CHR ''/'' then path_or_authority_state hp sch cs
                    else Some \<lparr>scheme = sch, host = None, port = None,
                                path = OpaquePath (opaque_path_state [] rest)\<rparr>
                | [] \<Rightarrow> Some \<lparr>scheme = sch, host = None, port = None,
                              path = OpaquePath (opaque_path_state [] rest)\<rparr>))"

text \<open>
  \<^verbatim>\<open>new URL(input)\<close>: the argument is converted to a string (\<^verbatim>\<open>undefined\<close> becomes
  the string \<^verbatim>\<open>"undefined"\<close>) and parsed; failure is thrown as a \<^verbatim>\<open>TypeError\<close>.
\<close>

definition to_string :: "string option \<Rightarrow> string" where
  "to_string v = (case v of None \<Rightarrow> ''undefined'' | Some s \<Rightarrow> s)"

definition URL_new :: "host_parser \<Rightarrow> string option \<Rightarrow> js_error + url" where
  "URL_new hp v = (case basic_URL_parser hp (to_string v) of None \<Rightarrow> Inl TypeError | Some u \<Rightarrow> Inr u)"

text \<open>
  The origin of a URL and its serialisation, which the getter \<^verbatim>\<open>origin\<close> returns. The
  schemes \<^verbatim>\<open>ftp\<close>, \<^verbatim>\<open>http\<close>, \<^verbatim>\<open>https\<close>, \<^verbatim>\<open>ws\<close> and \<^verbatim>\<open>wss\<close> have a tuple origin,
  serialised as scheme, \<^verbatim>\<open>://\<close>, host and, if the port is not null, a colon and the
  port. A \<^verbatim>\<open>blob\<close> URL (with no entry in the blob URL store) has the origin of the URL
  its path parses to, if that is an \<^verbatim>\<open>http\<close> or \<^verbatim>\<open>https\<close> URL; a list path
  serialises to the empty string or starts with a slash, which has no scheme and does not
  parse. Every other URL has an opaque origin, serialised as \<^verbatim>\<open>null\<close>; for a
  \<^verbatim>\<open>file\<close> URL the standard leaves the origin to the implementation and suggests an
  opaque one, which is what Node.js returns.
\<close>

definition tuple_origin :: "url \<Rightarrow> string" where
  "tuple_origin u =
     scheme u @ ''://'' @ (case host u of None \<Rightarrow> [] | Some h \<Rightarrow> h)
       @ (case port u of None \<Rightarrow> [] | Some p \<Rightarrow> CHR '':'' # decimal_string p)"

definition has_tuple_origin :: "string \<Rightarrow> bool" where
  "has_tuple_origin s = (s = ''ftp'' \<or> s = ''http'' \<or> s = ''https'' \<or> s = ''ws'' \<or> s = ''wss'')"

definition origin :: "host_parser \<Rightarrow> url \<Rightarrow> string" where
  "origin hp u =
     (if scheme u = ''blob''
      then (case path u of
              ListPath \<Rightarrow> ''null''
            | OpaquePath p \<Rightarrow>
                (case basic_URL_parser hp p of
                   None \<Rightarrow> ''null''
                 | Some v \<Rightarrow>
                     if scheme v = ''http'' \<or> scheme v = ''https'' then tuple_origin v
                     else ''null''))
      else if has_tuple_origin (scheme u) then tuple_origin u
      else ''null'')"

section \<open>The constants module \<^verbatim>\<open>src/config.ts\<close>\<close>

text \<open>
  \<^verbatim>\<open>import.meta.env\<close> is an object of strings; a variable that is not set reads as
  \<^verbatim>\<open>undefined\<close>. The module's exports are the five constants. Evaluating the module
  runs its body top to bottom: when \<^verbatim>\<open>new URL\<close> throws, the module has no catch, the
  evaluation ends with that error and nothing is exported.
\<close>

type_synonym env = "string \<rightharpoonup> string"

record exports =
  SITE_TITLE :: string
  SITE_DESCRIPTION :: string
  TWITTER_HANDLE :: string
  MY_NAME :: string
  SITE_URL :: string

definition BASE_URL :: "host_parser \<Rightarrow> env \<Rightarrow> js_error + url" where
  "BASE_URL hp e = URL_new hp (e ''SITE'')"

definition config :: "host_parser \<Rightarrow> env \<Rightarrow> js_error + exports" where
  "config hp e =
     (case BASE_URL hp e of
        Inl err \<Rightarrow> Inl err
      | Inr base \<Rightarrow>
          Inr \<lparr>SITE_TITLE = ''marpme'',
               SITE_DESCRIPTION =
                 ''Welcome to my awesome blog, talking about web technologies and various related topics'',
               TWITTER_HANDLE = ''@marpme_'',
               MY_NAME = ''marpme'',
               SITE_URL = origin hp base\<rparr>)"

text \<open>The exports of a run that succeeds, given the derived string.\<close>

definition exports_with :: "string \<Rightarrow> exports" where
  "exports_with site_url =
     \<lparr>SITE_TITLE = ''marpme'',
      SITE_DESCRIPTION =
        ''Welcome to my awesome blog, talking about web technologies and various related topics'',
      TWITTER_HANDLE = ''@marpme_'',
      MY_NAME = ''marpme'',
      SITE_URL = site_url\<rparr>"

text \<open>
  An instance of the host parser for the example runs. On a non-empty host of lower-case
  ASCII letters and dots the platform's host parser returns the host as it is (a domain
  for a special scheme, an opaque host otherwise); this instance fails on every other
  host. The example runs give it \<^verbatim>\<open>example.com\<close>, and once \<^verbatim>\<open>exa%mple.com\<close>, which
  the platform's host parser rejects as this instance does (a percent sign is a
  forbidden domain code point).
\<close>

definition letters_host_parser :: host_parser where
  "letters_host_parser is_opaque s =
     (if s \<noteq> [] \<and> list_all (\<lambda>c. ascii_lower_alpha c \<or> c = CHR ''.'') s then Some s else None)"

section \<open>URL strings\<close>


text \<open>
  The text of a host, as it stands in the authority of a URL string: it is not empty; it
  has no C0 control, no space, no backslash and none of \<^verbatim>\<open>@\<close>, \<^verbatim>\<open>/\<close>, \<^verbatim>\<open>?\<close>,
  \<^verbatim>\<open>#\<close>; and a colon stands only between square brackets (an IPv6 address), each
  \<^verbatim>\<open>[\<close> closed by a \<^verbatim>\<open>]\<close>. The two functions follow the flag \<open>insideBrackets\<close> of
  the host state.
\<close>

fun inside_brackets_after :: "bool \<Rightarrow> string \<Rightarrow> bool" where
  "inside_brackets_after inside_brackets [] = inside_brackets"
| "inside_brackets_after inside_brackets (c # cs) =
     inside_brackets_after
       (if c = CHR ''['' then True else if c = CHR '']'' then False else inside_brackets) cs"

fun colon_outside_brackets :: "bool \<Rightarrow> string \<Rightarrow> bool" where
  "colon_outside_brackets inside_brackets [] = False"
| "colon_outside_brackets inside_brackets (c # cs) =
     (if c = CHR '':'' \<and> \<not> inside_brackets then True
      else colon_outside_brackets
             (if c = CHR ''['' then True else if c = CHR '']'' then False else inside_brackets) cs)"

definition host_text :: "string \<Rightarrow> bool" where
  "host_text h =
     (h \<noteq> [] \<and>
      list_all (\<lambda>c. \<not> c0_control_or_space c \<and> c \<noteq> CHR ''@'' \<and> c \<noteq> CHR ''/'' \<and>
                    c \<noteq> CHR 0x5C \<and> c \<noteq> CHR ''?'' \<and> c \<noteq> CHR ''#'') h \<and>
      \<not> colon_outside_brackets False h \<and> \<not> inside_brackets_after False h)"

text \<open>
  A URL string with an authority, written from its parts: the scheme, \<^verbatim>\<open>://\<close>, the
  host's text, the port's digits after a colon if there is a port, and the rest (path,
  query and fragment). The parts are those of a URL with a tuple origin when the scheme
  is \<^verbatim>\<open>ftp\<close>, \<^verbatim>\<open>http\<close>, \<^verbatim>\<open>https\<close>, \<^verbatim>\<open>ws\<close> or \<^verbatim>\<open>wss\<close> in any letter case, the host's
  text is one, the port is a run of digits, and the rest is empty or starts with
  \<^verbatim>\<open>/\<close>, \<^verbatim>\<open>?\<close> or \<^verbatim>\<open>#\<close>; what follows in the rest is any text.
\<close>

definition URL_string :: "string \<Rightarrow> string \<Rightarrow> string option \<Rightarrow> string \<Rightarrow> string" where
  "URL_string sch h p rest =
     sch @ ''://'' @ h @ (case p of None \<Rightarrow> [] | Some ds \<Rightarrow> CHR '':'' # ds) @ rest"

definition tuple_URL_parts :: "string \<Rightarrow> string \<Rightarrow> string option \<Rightarrow> string \<Rightarrow> bool" where
  "tuple_URL_parts sch h p rest =
     (map ascii_lowercase sch \<in> set [''ftp'', ''http'', ''https'', ''ws'', ''wss''] \<and>
      host_text h \<and>
      (case p of None \<Rightarrow> True | Some ds \<Rightarrow> list_all ascii_digit ds) \<and>
      (case rest of [] \<Rightarrow> True | c # _ \<Rightarrow> c = CHR ''/'' \<or> c = CHR ''?'' \<or> c = CHR ''#''))"


section \<open>Example runs\<close>

text \<open>The model run on concrete values of \<^verbatim>\<open>SITE\<close>, each evaluated by rewriting with
  the definitions.\<close>

lemmas char_defs = c0_control_or_space_def ascii_tab_or_newline_def ascii_digit_def
  ascii_upper_alpha_def ascii_lower_alpha_def ascii_alpha_def ascii_alphanumeric_def
  ascii_lowercase_def ends_authority_def

lemmas parser_defs = basic_URL_parser_def strip_c0_control_or_space_def
  remove_tab_or_newline_def is_special_def default_port_def
  special_authority_ignore_slashes_state_def port_end_def host_end_def authority_def
  decimal_value_def digit_value_def letters_host_parser_def

lemmas config_defs = config_def BASE_URL_def URL_new_def to_string_def origin_def
  has_tuple_origin_def tuple_origin_def exports_with_def

lemma SITE_URL_exports_with [simp]: "SITE_URL (exports_with x) = x"
  by (simp add: exports_with_def)


lemma parse_https:
  "basic_URL_parser letters_host_parser ''https://example.com/blog?x=1#top'' =
     Some \<lparr>scheme = ''https'', host = Some ''example.com'', port = None, path = ListPath\<rparr>"
  by (simp add: char_defs parser_defs)


lemma parse_ssh:
  "basic_URL_parser letters_host_parser ''ssh://example.com/x'' =
     Some \<lparr>scheme = ''ssh'', host = Some ''example.com'', port = None, path = ListPath\<rparr>"
  by (simp add: char_defs parser_defs)



lemma example_run:
  "config letters_host_parser (Map.empty(''SITE'' \<mapsto> ''https://example.com/blog?x=1#top'')) =
     Inr (exports_with ''https://example.com'')"
  by (simp add: config_defs parse_https)


lemma example_run_ssh:
  "config letters_host_parser (Map.empty(''SITE'' \<mapsto> ''ssh://example.com/x'')) =
     Inr (exports_with ''null'')"
  by (simp add: config_defs parse_ssh)

lemma parse_mailto:
  "basic_URL_parser hp ''mailto:me@example.com'' =
     Some \<lparr>scheme = ''mailto'', host = None, port = None, path = OpaquePath ''me@example.com''\<rparr>"
  by (simp add: char_defs parser_defs c0_control_percent_encode_def)



section \<open>What the parser returns\<close>








lemma has_tuple_origin_special:
  "has_tuple_origin s \<Longrightarrow> is_special s \<and> s \<noteq> ''file'' \<and> s \<noteq> ''blob''"
  by (auto simp: has_tuple_origin_def is_special_def)


lemma tuple_origin_nonempty: "tuple_origin u \<noteq> []"
  by (simp add: tuple_origin_def)

lemma origin_nonempty: "origin hp u \<noteq> []"
  by (simp add: origin_def tuple_origin_nonempty split: url_path.splits option.splits)

section \<open>Decimal numbers\<close>







section \<open>Parsing a URL string with an authority\<close>

text \<open>
  A URL string written from the parts of a URL with a tuple origin goes through the
  parser state by state: stripping and removing white space changes the rest only and
  leaves its first character in place, the scheme state finds the scheme and lower-cases
  it, the two slashes are skipped, the authority state finds no credentials, the host
  state takes the host's text whole, and the port state reads the digits up to the rest.
\<close>

lemma digit_plain:
  "ascii_digit c \<Longrightarrow> \<not> c0_control_or_space c \<and> c \<noteq> CHR ''@'' \<and> \<not> ends_authority True c"
  by (auto simp: ascii_digit_def c0_control_or_space_def ends_authority_def)

lemma alpha_plain: "ascii_alpha c \<Longrightarrow> \<not> c0_control_or_space c"
  by (auto simp: ascii_alpha_def ascii_upper_alpha_def ascii_lower_alpha_def c0_control_or_space_def)

lemma lowercase_of_letter: "ascii_lower_alpha (ascii_lowercase c) \<Longrightarrow> ascii_alpha c"
  by (auto simp: ascii_lowercase_def ascii_alpha_def split: if_splits)

lemma tuple_scheme_letters:
  assumes "map ascii_lowercase sch \<in> set [''ftp'', ''http'', ''https'', ''ws'', ''wss'']"
  shows "sch \<noteq> [] \<and> list_all ascii_alpha sch"
proof -
  from assms have "map ascii_lowercase sch \<noteq> [] \<and> list_all ascii_lower_alpha (map ascii_lowercase sch)"
    by (auto simp: ascii_lower_alpha_def)
  then show ?thesis
    by (auto simp: list_all_iff dest: lowercase_of_letter)
qed

lemma tuple_scheme_special:
  assumes "s \<in> set [''ftp'', ''http'', ''https'', ''ws'', ''wss'']"
  shows "has_tuple_origin s"
  using assms by (auto simp: has_tuple_origin_def)

lemma scheme_state_letters:
  "list_all ascii_alpha s \<Longrightarrow>
     scheme_state buffer (s @ CHR '':'' # rest) = Some (buffer @ map ascii_lowercase s, rest)"
proof (induction s arbitrary: buffer)
  case Nil
  then show ?case by (simp add: char_defs)
next
  case (Cons c cs)
  then show ?case by (simp add: ascii_alphanumeric_def)
qed

lemma scheme_start_state_letters:
  assumes "sch \<noteq> []" "list_all ascii_alpha sch"
  shows "scheme_start_state (sch @ CHR '':'' # rest) = Some (map ascii_lowercase sch, rest)"
proof -
  from assms obtain c cs where sch: "sch = c # cs" by (cases sch) auto
  with assms(2) have "ascii_alpha c" "list_all ascii_alpha cs" by simp_all
  with scheme_state_letters [of cs "[ascii_lowercase c]" rest] sch show ?thesis by simp
qed

lemma starts_authority_end:
  "(case rest of [] \<Rightarrow> True | c # _ \<Rightarrow> c = CHR ''/'' \<or> c = CHR ''?'' \<or> c = CHR ''#'') \<Longrightarrow>
     (case rest of [] \<Rightarrow> True | c # _ \<Rightarrow> ends_authority special c \<and> c \<noteq> CHR ''@'' \<and> c \<noteq> CHR '':'' \<and> \<not> ascii_digit c)"
  by (auto simp: ends_authority_def ascii_digit_def split: list.splits)

lemma authority_state_whole:
  assumes "list_all (\<lambda>c. c \<noteq> CHR ''@'' \<and> \<not> ends_authority special c) s"
    and "case rest of [] \<Rightarrow> True | c # _ \<Rightarrow> ends_authority special c \<and> c \<noteq> CHR ''@''"
  shows "authority_state special False buffer (s @ rest) = Some (buffer @ s @ rest)"
  using assms
proof (induction s arbitrary: buffer)
  case Nil
  then show ?case by (cases rest) simp_all
next
  case (Cons c cs)
  then show ?case by simp
qed

lemma host_state_skip:
  "list_all (\<lambda>c. \<not> ends_authority (is_special sch) c) s \<Longrightarrow>
   \<not> colon_outside_brackets inside_brackets s \<Longrightarrow>
     host_state hp sch inside_brackets buffer (s @ rest) =
       host_state hp sch (inside_brackets_after inside_brackets s) (buffer @ s) rest"
proof (induction s arbitrary: inside_brackets buffer)
  case Nil
  then show ?case by simp
next
  case (Cons c cs)
  from Cons.prems have c: "\<not> ends_authority (is_special sch) c" "\<not> (c = CHR '':'' \<and> \<not> inside_brackets)"
    by (auto split: if_splits)
  let ?b = "if c = CHR ''['' then True else if c = CHR '']'' then False else inside_brackets"
  from Cons.prems c have "\<not> colon_outside_brackets ?b cs" by (simp split: if_splits)
  moreover from Cons.prems have "list_all (\<lambda>c. \<not> ends_authority (is_special sch) c) cs" by simp
  ultimately have "host_state hp sch ?b (buffer @ [c]) (cs @ rest) =
       host_state hp sch (inside_brackets_after ?b cs) ((buffer @ [c]) @ cs) rest"
    by (rule Cons.IH [rotated])
  with c show ?case by auto
qed

lemma port_state_digits:
  assumes "list_all ascii_digit ds"
    and "case rest of [] \<Rightarrow> True | c # _ \<Rightarrow> ends_authority (is_special sch) c \<and> \<not> ascii_digit c"
  shows "port_state sch buffer (ds @ rest) = port_end sch (buffer @ ds) rest"
  using assms
proof (induction ds arbitrary: buffer)
  case Nil
  then show ?case by (cases rest) simp_all
next
  case (Cons d ds)
  then show ?case by simp
qed

lemma host_text_plain:
  assumes "host_text h"
  shows "h \<noteq> []"
    and "list_all (\<lambda>c. \<not> c0_control_or_space c) h"
    and "list_all (\<lambda>c. c \<noteq> CHR ''@'' \<and> \<not> ends_authority True c) h"
    and "\<not> colon_outside_brackets False h" and "inside_brackets_after False h = False"
  using assms by (auto simp: host_text_def list_all_iff ends_authority_def)

lemma special_authority_slashes_state_host:
  assumes "host_text h"
  shows "special_authority_slashes_state (''//'' @ h @ r) = h @ r"
proof -
  from assms obtain c cs where h: "h = c # cs" and "c \<noteq> CHR ''/'' \<and> c \<noteq> CHR 0x5C"
    by (cases h) (auto simp: host_text_def)
  then show ?thesis by (simp add: special_authority_ignore_slashes_state_def)
qed

lemma host_state_of_host_text:
  assumes special: "is_special sch"
    and host: "host_text b"
    and port: "case p of None \<Rightarrow> True | Some ds \<Rightarrow> list_all ascii_digit ds"
    and rest: "case rest of [] \<Rightarrow> True | c # _ \<Rightarrow> c = CHR ''/'' \<or> c = CHR ''?'' \<or> c = CHR ''#''"
  shows "host_state hp sch False [] (b @ (case p of None \<Rightarrow> [] | Some ds \<Rightarrow> CHR '':'' # ds) @ rest) =
     (case hp False b of
        None \<Rightarrow> None
      | Some h \<Rightarrow>
          (case p of
             None \<Rightarrow> Some (h, None, rest)
           | Some ds \<Rightarrow>
               (case port_end sch ds rest of
                  None \<Rightarrow> None
                | Some (n, r) \<Rightarrow> Some (h, n, r))))"
proof -
  let ?ps = "case p of None \<Rightarrow> [] | Some ds \<Rightarrow> CHR '':'' # ds"
  note ends = starts_authority_end [OF rest, of "is_special sch"]
  from host special have "list_all (\<lambda>c. \<not> ends_authority (is_special sch) c) b"
    using host_text_plain(3) [OF host] by (simp add: list_all_iff)
  then have "host_state hp sch False [] (b @ ?ps @ rest) =
      host_state hp sch (inside_brackets_after False b) ([] @ b) (?ps @ rest)"
    using host_text_plain(4) [OF host] by (rule host_state_skip)
  then have skip: "host_state hp sch False [] (b @ ?ps @ rest) = host_state hp sch False b (?ps @ rest)"
    by (simp add: host_text_plain(5) [OF host])
  note nonempty = host_text_plain(1) [OF host]
  show ?thesis
  proof (cases p)
    case None
    have "host_state hp sch False b rest = host_end hp sch b rest"
      using ends by (cases rest) simp_all
    with skip None special nonempty show ?thesis
      by (simp add: host_end_def split: option.splits)
  next
    case (Some ds)
    with port have "list_all ascii_digit ds" by simp
    moreover from ends
    have "case rest of [] \<Rightarrow> True | c # _ \<Rightarrow> ends_authority (is_special sch) c \<and> \<not> ascii_digit c"
      by (cases rest) simp_all
    ultimately have "port_state sch [] (ds @ rest) = port_end sch ([] @ ds) rest"
      by (rule port_state_digits)
    with skip Some nonempty special show ?thesis by (simp split: option.splits)
  qed
qed

lemma port_end_rest:
  "port_end sch ds rest =
     (case port_end sch ds [] of None \<Rightarrow> None | Some (n, r) \<Rightarrow> Some (n, rest))"
  by (simp add: port_end_def Let_def)

lemma preprocessing_prefix:
  assumes nonempty: "t \<noteq> []"
    and plain: "list_all (\<lambda>c. \<not> c0_control_or_space c) t"
    and rest: "case rest of [] \<Rightarrow> True | c # _ \<Rightarrow> c = CHR ''/'' \<or> c = CHR ''?'' \<or> c = CHR ''#''"
  obtains rest' where
    "remove_tab_or_newline (strip_c0_control_or_space (t @ rest)) = t @ rest'"
    "case rest' of [] \<Rightarrow> True | c # _ \<Rightarrow> c = CHR ''/'' \<or> c = CHR ''?'' \<or> c = CHR ''#''"
proof -
  have delimiter: "\<not> c0_control_or_space c \<and> \<not> ascii_tab_or_newline c"
    if "c = CHR ''/'' \<or> c = CHR ''?'' \<or> c = CHR ''#''" for c
    using that by (auto simp: c0_control_or_space_def ascii_tab_or_newline_def)
  from nonempty plain have first: "dropWhile c0_control_or_space (t @ rest) = t @ rest"
    by (cases t) simp_all
  from nonempty plain have last: "dropWhile c0_control_or_space (rev t) = rev t"
    by (cases t rule: rev_cases) simp_all
  from plain have "list_all (\<lambda>c. \<not> ascii_tab_or_newline c) t"
    by (induction t) (auto simp: ascii_tab_or_newline_def c0_control_or_space_def)
  then have kept: "filter (\<lambda>c. \<not> ascii_tab_or_newline c) t = t"
    by (induction t) simp_all
  show ?thesis
  proof (cases rest)
    case Nil
    with first last kept have "remove_tab_or_newline (strip_c0_control_or_space (t @ rest)) = t @ []"
      by (simp add: remove_tab_or_newline_def strip_c0_control_or_space_def)
    then show ?thesis by (rule that) simp
  next
    case (Cons c cs)
    with rest have c: "\<not> c0_control_or_space c" "\<not> ascii_tab_or_newline c"
      using delimiter by simp_all
    define xs where "xs = rev (dropWhile c0_control_or_space (rev cs))"
    from c(1) have "dropWhile c0_control_or_space ((rev cs @ [c]) @ rev t) =
        dropWhile c0_control_or_space (rev cs @ [c]) @ rev t"
      by (intro dropWhile_append1 [where x = c]) simp_all
    moreover from c(1) have "dropWhile c0_control_or_space (ys @ [c]) =
        dropWhile c0_control_or_space ys @ [c]" for ys
      by (induction ys) simp_all
    ultimately have "dropWhile c0_control_or_space (rev (t @ rest)) =
        dropWhile c0_control_or_space (rev cs) @ c # rev t"
      using Cons by simp
    then have "strip_c0_control_or_space (t @ rest) = t @ c # xs"
      by (simp add: strip_c0_control_or_space_def first xs_def)
    with kept c(2)
    have "remove_tab_or_newline (strip_c0_control_or_space (t @ rest)) =
        t @ c # filter (\<lambda>c. \<not> ascii_tab_or_newline c) xs"
      by (simp add: remove_tab_or_newline_def)
    moreover from rest Cons
    have "case c # filter (\<lambda>c. \<not> ascii_tab_or_newline c) xs of
        [] \<Rightarrow> True
      | c # _ \<Rightarrow> c = CHR ''/'' \<or> c = CHR ''?'' \<or> c = CHR ''#''"
      by simp
    ultimately show ?thesis by (rule that)
  qed
qed

lemma URL_string_parses:
  assumes parts: "tuple_URL_parts sch b p rest"
  shows "basic_URL_parser hp (URL_string sch b p rest) =
     (case hp False b of
        None \<Rightarrow> None
      | Some h \<Rightarrow>
          (case p of
             None \<Rightarrow>
               Some \<lparr>scheme = map ascii_lowercase sch, host = Some h, port = None, path = ListPath\<rparr>
           | Some ds \<Rightarrow>
               (case port_end (map ascii_lowercase sch) ds [] of
                  None \<Rightarrow> None
                | Some (n, r) \<Rightarrow>
                    Some \<lparr>scheme = map ascii_lowercase sch, host = Some h, port = n, path = ListPath\<rparr>)))"
proof -
  let ?sch = "map ascii_lowercase sch"
  let ?ps = "case p of None \<Rightarrow> [] | Some ds \<Rightarrow> CHR '':'' # ds"
  from parts have five: "?sch \<in> set [''ftp'', ''http'', ''https'', ''ws'', ''wss'']"
    and host: "host_text b"
    and port: "case p of None \<Rightarrow> True | Some ds \<Rightarrow> list_all ascii_digit ds"
    and rest: "case rest of [] \<Rightarrow> True | c # _ \<Rightarrow> c = CHR ''/'' \<or> c = CHR ''?'' \<or> c = CHR ''#''"
    by (simp_all add: tuple_URL_parts_def)
  from five have tuple: "has_tuple_origin ?sch" by (rule tuple_scheme_special)
  then have special: "is_special ?sch" and not_file: "?sch \<noteq> ''file''"
    by (simp_all add: has_tuple_origin_special)
  from tuple_scheme_letters [OF five] have letters: "sch \<noteq> []" "list_all ascii_alpha sch"
    by simp_all
  have colon: "\<not> c0_control_or_space (CHR '':'')" "\<not> c0_control_or_space (CHR ''/'')"
    by (simp_all add: c0_control_or_space_def)
  have plain_port: "list_all (\<lambda>c. \<not> c0_control_or_space c) ?ps"
  proof (cases p)
    case None
    then show ?thesis by simp
  next
    case (Some ds)
    with port have "list_all (\<lambda>c. \<not> c0_control_or_space c) ds"
      by (auto simp: list_all_iff dest: digit_plain)
    with Some colon show ?thesis by simp
  qed
  define t where "t = sch @ ''://'' @ b @ ?ps"
  from letters(2) have "list_all (\<lambda>c. \<not> c0_control_or_space c) sch"
    by (auto simp: list_all_iff dest: alpha_plain)
  with host_text_plain(2) [OF host] plain_port
  have plain: "list_all (\<lambda>c. \<not> c0_control_or_space c) t"
    using colon by (simp add: t_def)
  from letters(1) have "t \<noteq> []" by (simp add: t_def)
  then obtain rest' where
    pre: "remove_tab_or_newline (strip_c0_control_or_space (t @ rest)) = t @ rest'"
    and rest': "case rest' of [] \<Rightarrow> True | c # _ \<Rightarrow> c = CHR ''/'' \<or> c = CHR ''?'' \<or> c = CHR ''#''"
    using plain rest by (rule preprocessing_prefix)
  define tail where "tail = ''//'' @ b @ ?ps @ rest'"
  have whole: "URL_string sch b p rest = t @ rest"
    by (simp add: URL_string_def t_def)
  have whole': "t @ rest' = sch @ CHR '':'' # tail"
    by (simp add: t_def tail_def)
  have start: "scheme_start_state (sch @ CHR '':'' # tail) = Some (?sch, tail)"
    using letters by (rule scheme_start_state_letters)
  have slashes: "special_authority_slashes_state tail = b @ ?ps @ rest'"
    unfolding tail_def by (rule special_authority_slashes_state_host [OF host])
  have "list_all (\<lambda>c. c \<noteq> CHR ''@'' \<and> \<not> ends_authority True c) ?ps"
  proof (cases p)
    case None
    then show ?thesis by simp
  next
    case (Some ds)
    with port have "list_all (\<lambda>c. c \<noteq> CHR ''@'' \<and> \<not> ends_authority True c) ds"
      by (auto simp: list_all_iff dest: digit_plain)
    moreover have "\<not> ends_authority True (CHR '':'')" by (simp add: ends_authority_def)
    ultimately show ?thesis using Some by simp
  qed
  with host_text_plain(3) [OF host]
  have "list_all (\<lambda>c. c \<noteq> CHR ''@'' \<and> \<not> ends_authority True c) (b @ ?ps)" by simp
  moreover have "case rest' of [] \<Rightarrow> True | c # _ \<Rightarrow> ends_authority True c \<and> c \<noteq> CHR ''@''"
    using starts_authority_end [OF rest', of True] by (cases rest') simp_all
  ultimately have "authority_state True False [] ((b @ ?ps) @ rest') = Some ([] @ (b @ ?ps) @ rest')"
    by (rule authority_state_whole)
  then have auth: "authority_state (is_special ?sch) False [] (b @ ?ps @ rest') = Some (b @ ?ps @ rest')"
    using special by simp
  have "basic_URL_parser hp (URL_string sch b p rest) = authority hp ?sch (b @ ?ps @ rest')"
    using not_file special by (simp only: basic_URL_parser_def whole pre whole' start) (simp add: slashes)
  also have "\<dots> = (case host_state hp ?sch False [] (b @ ?ps @ rest') of
      None \<Rightarrow> None
    | Some (h, n, r) \<Rightarrow> Some \<lparr>scheme = ?sch, host = Some h, port = n, path = ListPath\<rparr>)"
    by (simp add: authority_def auth)
  finally show ?thesis
    by (simp add: host_state_of_host_text [OF special host port rest']
          port_end_rest [of _ _ rest'] split: option.splits)
qed

section \<open>Strings without a scheme\<close>




section \<open>Reading a tuple origin back\<close>










lemma no_brackets_no_colon:
  "list_all (\<lambda>c. c \<noteq> CHR '':'' \<and> c \<noteq> CHR ''['') h \<Longrightarrow>
     \<not> colon_outside_brackets False h \<and> \<not> inside_brackets_after False h"
  by (induction h) auto

lemma letter_or_dot_plain:
  "ascii_lower_alpha c \<or> c = CHR ''.'' \<Longrightarrow>
     \<not> c0_control_or_space c \<and> c \<noteq> CHR ''@'' \<and> c \<noteq> CHR ''/'' \<and> c \<noteq> CHR 0x5C \<and>
     c \<noteq> CHR ''?'' \<and> c \<noteq> CHR ''#'' \<and> c \<noteq> CHR '':'' \<and> c \<noteq> CHR ''[''"
  by (auto simp: ascii_lower_alpha_def c0_control_or_space_def)

lemma letters_host_text:
  assumes "letters_host_parser is_opaque b = Some h"
  shows "h = b \<and> host_text h"
proof -
  from assms have h: "h = b" "h \<noteq> []" "list_all (\<lambda>c. ascii_lower_alpha c \<or> c = CHR ''.'') h"
    by (auto simp: letters_host_parser_def split: if_splits)
  from h(3) have 1: "list_all (\<lambda>c. \<not> c0_control_or_space c \<and> c \<noteq> CHR ''@'' \<and> c \<noteq> CHR ''/'' \<and>
                    c \<noteq> CHR 0x5C \<and> c \<noteq> CHR ''?'' \<and> c \<noteq> CHR ''#'') h"
    and 2: "list_all (\<lambda>c. c \<noteq> CHR '':'' \<and> c \<noteq> CHR ''['') h"
    using letter_or_dot_plain by (auto simp: list_all_iff)
  from h 1 no_brackets_no_colon [OF 2] show ?thesis
    by (simp add: host_text_def)
qed


text \<open>
  Stability cannot be dropped for a host parser that is a parameter. One that accepts
  a space in a host, which the platform's host parser rejects, takes the host \<^verbatim>\<open>a\<close> with
  a space after it from a \<^verbatim>\<open>SITE\<close> where a slash follows the space; in the origin the
  space is last, and is stripped when the origin is parsed.
\<close>

lemma unstable_host_parser_origin:
  "config (\<lambda>is_opaque s. Some s) (Map.empty(''SITE'' \<mapsto> ''https://a /'')) =
     Inr (exports_with ''https://a '')
   \<and> config (\<lambda>is_opaque s. Some s) (Map.empty(''SITE'' \<mapsto> ''https://a '')) =
     Inr (exports_with ''https://a'')"
proof -
  have "basic_URL_parser (\<lambda>is_opaque s. Some s) ''https://a /'' =
      Some \<lparr>scheme = ''https'', host = Some ''a '', port = None, path = ListPath\<rparr>"
    by (simp add: char_defs basic_URL_parser_def strip_c0_control_or_space_def
          remove_tab_or_newline_def is_special_def special_authority_ignore_slashes_state_def
          host_end_def authority_def)
  moreover have "basic_URL_parser (\<lambda>is_opaque s. Some s) ''https://a '' =
      Some \<lparr>scheme = ''https'', host = Some ''a'', port = None, path = ListPath\<rparr>"
    by (simp add: char_defs basic_URL_parser_def strip_c0_control_or_space_def
          remove_tab_or_newline_def is_special_def special_authority_ignore_slashes_state_def
          host_end_def authority_def)
  ultimately show ?thesis by (simp add: config_defs)
qed

lemma host_text_example: "host_text ''example.com''"
  using letters_host_text [of False "''example.com''" "''example.com''"]
  by (simp add: letters_host_parser_def ascii_lower_alpha_def)

section \<open>The literal constants\<close>

text \<open>
  C8. Whenever the module evaluates, its exports \<^verbatim>\<open>SITE_TITLE\<close> and \<^verbatim>\<open>MY_NAME\<close> are
  the same string, \<^verbatim>\<open>marpme\<close>.
\<close>

theorem title_and_name_are_marpme:
  "config hp e = Inr m \<Longrightarrow>
     SITE_TITLE m = ''marpme'' \<and> MY_NAME m = ''marpme'' \<and> SITE_TITLE m = MY_NAME m"
  by (auto simp: config_def split: sum.splits)

theorem title_and_name_are_marpme_witness:
  "SITE_TITLE (exports_with ''https://example.com'') = ''marpme''
   \<and> MY_NAME (exports_with ''https://example.com'') = ''marpme''
   \<and> SITE_TITLE (exports_with ''https://example.com'') = MY_NAME (exports_with ''https://example.com'')"
  using title_and_name_are_marpme [OF example_run] .

text \<open>
  C9. Whenever the module evaluates, \<^verbatim>\<open>TWITTER_HANDLE\<close> is \<^verbatim>\<open>@\<close>, then \<^verbatim>\<open>MY_NAME\<close>,
  then \<^verbatim>\<open>_\<close>; its first character is \<^verbatim>\<open>@\<close>.
\<close>

theorem twitter_handle_wraps_name:
  "config hp e = Inr m \<Longrightarrow>
     TWITTER_HANDLE m = ''@'' @ MY_NAME m @ ''_'' \<and> hd (TWITTER_HANDLE m) = CHR ''@''"
  by (auto simp: config_def split: sum.splits)

theorem twitter_handle_wraps_name_witness:
  "TWITTER_HANDLE (exports_with ''https://example.com'') =
     ''@'' @ MY_NAME (exports_with ''https://example.com'') @ ''_''
   \<and> hd (TWITTER_HANDLE (exports_with ''https://example.com'')) = CHR ''@''"
  using twitter_handle_wraps_name [OF example_run] .

section \<open>The derived origin\<close>




section \<open>Failure\<close>




section \<open>Dependence on the environment\<close>

text \<open>
  C3. The module reads nothing of the environment but \<^verbatim>\<open>SITE\<close>: two environments with
  the same \<^verbatim>\<open>SITE\<close> give the same result, \<^verbatim>\<open>SITE_URL\<close> included. The other four
  exports are the same in any two runs that succeed, whatever the environments.
\<close>

theorem config_depends_on_site_only:
  "(e1 ''SITE'' = e2 ''SITE'' \<longrightarrow> config hp e1 = config hp e2) \<and>
   (config hp1 e1 = Inr m1 \<and> config hp2 e2 = Inr m2 \<longrightarrow>
      SITE_TITLE m1 = SITE_TITLE m2 \<and> SITE_DESCRIPTION m1 = SITE_DESCRIPTION m2 \<and>
      TWITTER_HANDLE m1 = TWITTER_HANDLE m2 \<and> MY_NAME m1 = MY_NAME m2)"
  by (auto simp: config_def BASE_URL_def split: sum.splits)

theorem config_depends_on_site_only_witness:
  "config letters_host_parser
     (Map.empty(''SITE'' \<mapsto> ''https://example.com/blog?x=1#top'', ''MODE'' \<mapsto> ''production'')) =
   config letters_host_parser
     (Map.empty(''SITE'' \<mapsto> ''https://example.com/blog?x=1#top''))
   \<and> SITE_TITLE (exports_with ''https://example.com'') = SITE_TITLE (exports_with ''null'')
   \<and> SITE_DESCRIPTION (exports_with ''https://example.com'') = SITE_DESCRIPTION (exports_with ''null'')
   \<and> TWITTER_HANDLE (exports_with ''https://example.com'') = TWITTER_HANDLE (exports_with ''null'')
   \<and> MY_NAME (exports_with ''https://example.com'') = MY_NAME (exports_with ''null'')
   \<and> SITE_URL (exports_with ''https://example.com'') \<noteq> SITE_URL (exports_with ''null'')"
proof -
  define e1 :: env where
    "e1 = Map.empty(''SITE'' \<mapsto> ''https://example.com/blog?x=1#top'', ''MODE'' \<mapsto> ''production'')"
  define e2 :: env where "e2 = Map.empty(''SITE'' \<mapsto> ''https://example.com/blog?x=1#top'')"
  define e3 :: env where "e3 = Map.empty(''SITE'' \<mapsto> ''ssh://example.com/x'')"
  have same: "e1 ''SITE'' = e2 ''SITE''" by (simp add: e1_def e2_def)
  have r2: "config letters_host_parser e2 = Inr (exports_with ''https://example.com'')"
    unfolding e2_def by (rule example_run)
  have r3: "config letters_host_parser e3 = Inr (exports_with ''null'')"
    unfolding e3_def by (rule example_run_ssh)
  from config_depends_on_site_only [where ?e1.0 = e1 and ?e2.0 = e2 and hp = letters_host_parser] same
  have 1: "config letters_host_parser e1 = config letters_host_parser e2" by blast
  from config_depends_on_site_only
         [where ?e1.0 = e2 and ?e2.0 = e3 and ?hp1.0 = letters_host_parser
            and ?hp2.0 = letters_host_parser and ?m1.0 = "exports_with ''https://example.com''"
            and ?m2.0 = "exports_with ''null''"] r2 r3
  have 2: "SITE_TITLE (exports_with ''https://example.com'') = SITE_TITLE (exports_with ''null'')
   \<and> SITE_DESCRIPTION (exports_with ''https://example.com'') = SITE_DESCRIPTION (exports_with ''null'')
   \<and> TWITTER_HANDLE (exports_with ''https://example.com'') = TWITTER_HANDLE (exports_with ''null'')
   \<and> MY_NAME (exports_with ''https://example.com'') = MY_NAME (exports_with ''null'')"
    by blast
  have 3: "SITE_URL (exports_with ''https://example.com'') \<noteq> SITE_URL (exports_with ''null'')"
    by simp
  from 1 2 3 show ?thesis unfolding e1_def e2_def by blast
qed

section \<open>The shape of the module\<close>

text \<open>
  C4. The module exports five strings. Whenever it evaluates, four of them are the
  literals of the source, whatever the environment, and the fifth, \<^verbatim>\<open>SITE_URL\<close>, is
  the origin of the URL that \<^verbatim>\<open>new URL\<close> parses from the environment's \<^verbatim>\<open>SITE\<close>. It is
  derived from that string: for \<^verbatim>\<open>mailto:me@example.com\<close> it is \<^verbatim>\<open>null\<close>, and for
  \<^verbatim>\<open>https://\<close> followed by the text of a host that the host parser accepts it is
  \<^verbatim>\<open>https://\<close> followed by the host as the host parser serialises it.
\<close>

theorem config_is_four_literals_and_one_origin:
  "(config hp e = Inr m \<longrightarrow>
      m = \<lparr>SITE_TITLE = ''marpme'',
           SITE_DESCRIPTION =
             ''Welcome to my awesome blog, talking about web technologies and various related topics'',
           TWITTER_HANDLE = ''@marpme_'',
           MY_NAME = ''marpme'',
           SITE_URL = SITE_URL m\<rparr> \<and>
      (\<exists>u. URL_new hp (e ''SITE'') = Inr u \<and> SITE_URL m = origin hp u)) \<and>
   (e ''SITE'' = Some ''mailto:me@example.com'' \<longrightarrow>
      (\<exists>m'. config hp e = Inr m' \<and> SITE_URL m' = ''null'')) \<and>
   (e ''SITE'' = Some (''https://'' @ b) \<and> host_text b \<and> hp False b = Some h \<longrightarrow>
      (\<exists>m'. config hp e = Inr m' \<and> SITE_URL m' = ''https://'' @ h))"
proof -
  have literals: "m = \<lparr>SITE_TITLE = ''marpme'',
           SITE_DESCRIPTION =
             ''Welcome to my awesome blog, talking about web technologies and various related topics'',
           TWITTER_HANDLE = ''@marpme_'',
           MY_NAME = ''marpme'',
           SITE_URL = SITE_URL m\<rparr> \<and>
      (\<exists>u. URL_new hp (e ''SITE'') = Inr u \<and> SITE_URL m = origin hp u)"
    if "config hp e = Inr m"
    using that by (auto simp: config_def BASE_URL_def split: sum.splits)
  have mailto: "\<exists>m'. config hp e = Inr m' \<and> SITE_URL m' = ''null''"
    if "e ''SITE'' = Some ''mailto:me@example.com''"
  proof -
    have "origin hp \<lparr>scheme = ''mailto'', host = None, port = None,
        path = OpaquePath ''me@example.com''\<rparr> = ''null''"
      by (simp add: origin_def has_tuple_origin_def)
    with that have "config hp e = Inr (exports_with ''null'')"
      by (simp add: config_def BASE_URL_def URL_new_def to_string_def parse_mailto exports_with_def)
    then show ?thesis by simp
  qed
  have https: "\<exists>m'. config hp e = Inr m' \<and> SITE_URL m' = ''https://'' @ h"
    if site: "e ''SITE'' = Some (''https://'' @ b)" and host: "host_text b" "hp False b = Some h"
  proof -
    have lower: "map ascii_lowercase ''https'' = ''https''" by (simp add: char_defs)
    from host(1) have parts: "tuple_URL_parts ''https'' b None []"
      by (simp add: tuple_URL_parts_def char_defs)
    from site have "e ''SITE'' = Some (URL_string ''https'' b None [])"
      by (simp add: URL_string_def)
    with URL_string_parses [OF parts, of hp] host(2) lower
    have "BASE_URL hp e = Inr \<lparr>scheme = ''https'', host = Some h, port = None, path = ListPath\<rparr>"
      by (simp add: BASE_URL_def URL_new_def to_string_def char_defs)
    moreover have "origin hp \<lparr>scheme = ''https'', host = Some h, port = None, path = ListPath\<rparr> =
        ''https://'' @ h"
      by (simp add: origin_def has_tuple_origin_def tuple_origin_def)
    ultimately have "config hp e = Inr (exports_with (''https://'' @ h))"
      by (simp add: config_def exports_with_def)
    then show ?thesis by simp
  qed
  from literals mailto https show ?thesis by blast
qed

theorem config_is_four_literals_and_one_origin_witness:
  "exports_with ''https://example.com'' =
     \<lparr>SITE_TITLE = ''marpme'',
      SITE_DESCRIPTION =
        ''Welcome to my awesome blog, talking about web technologies and various related topics'',
      TWITTER_HANDLE = ''@marpme_'',
      MY_NAME = ''marpme'',
      SITE_URL = ''https://example.com''\<rparr>
   \<and> (\<exists>m'. config letters_host_parser (Map.empty(''SITE'' \<mapsto> ''mailto:me@example.com'')) = Inr m'
         \<and> SITE_URL m' = ''null'')
   \<and> host_text ''example.com''
   \<and> letters_host_parser False ''example.com'' = Some ''example.com''
   \<and> (\<exists>m'. config letters_host_parser (Map.empty(''SITE'' \<mapsto> ''https://example.com'')) = Inr m'
         \<and> SITE_URL m' = ''https://example.com'')"
proof -
  note shape = config_is_four_literals_and_one_origin [where hp = letters_host_parser]
  have accepted: "letters_host_parser False ''example.com'' = Some ''example.com''"
    by (simp add: letters_host_parser_def ascii_lower_alpha_def)
  have 1: "exports_with ''https://example.com'' =
     \<lparr>SITE_TITLE = ''marpme'',
      SITE_DESCRIPTION =
        ''Welcome to my awesome blog, talking about web technologies and various related topics'',
      TWITTER_HANDLE = ''@marpme_'',
      MY_NAME = ''marpme'',
      SITE_URL = ''https://example.com''\<rparr>"
    using shape [where e = "Map.empty(''SITE'' \<mapsto> ''https://example.com/blog?x=1#top'')"
        and m = "exports_with ''https://example.com''"] example_run
    by simp
  have 2: "\<exists>m'. config letters_host_parser (Map.empty(''SITE'' \<mapsto> ''mailto:me@example.com'')) = Inr m'
         \<and> SITE_URL m' = ''null''"
    using shape [where e = "Map.empty(''SITE'' \<mapsto> ''mailto:me@example.com'')"] by simp
  have 3: "\<exists>m'. config letters_host_parser (Map.empty(''SITE'' \<mapsto> ''https://example.com'')) = Inr m'
         \<and> SITE_URL m' = ''https://example.com''"
    using shape [where e = "Map.empty(''SITE'' \<mapsto> ''https://example.com'')" and b = "''example.com''"
        and h = "''example.com''"] host_text_example accepted
    by simp
  from 1 2 host_text_example accepted 3 show ?thesis by (intro conjI)
qed

text \<open>
  C5. Whenever the module evaluates, each of its five exports is a non-empty string.
\<close>

theorem exports_are_nonempty:
  "config hp e = Inr m \<Longrightarrow>
     SITE_TITLE m \<noteq> [] \<and> SITE_DESCRIPTION m \<noteq> [] \<and> TWITTER_HANDLE m \<noteq> [] \<and>
     MY_NAME m \<noteq> [] \<and> SITE_URL m \<noteq> []"
  by (auto simp: config_def origin_nonempty split: sum.splits)

theorem exports_are_nonempty_witness:
  "SITE_TITLE (exports_with ''null'') \<noteq> [] \<and> SITE_DESCRIPTION (exports_with ''null'') \<noteq> [] \<and>
   TWITTER_HANDLE (exports_with ''null'') \<noteq> [] \<and> MY_NAME (exports_with ''null'') \<noteq> [] \<and>
   SITE_URL (exports_with ''null'') \<noteq> []"
  using exports_are_nonempty [OF example_run_ssh] .

section \<open>The origin of an origin\<close>




end
